theory Spec2Isabelle
  imports Complex_Main
begin

section \<open>Values of a parsed schema document\<close>

text \<open>
  \<open>json.load\<close> returns Python values: \<open>None\<close>, a bool, an int, a float, a str, a list or
  a dict with string keys. A dict is an association list in insertion order; a Python
  dict holds every key once, so a well-formed document has distinct keys in every
  \<open>JObject\<close>. Floats are carried, never computed with.
\<close>

datatype json =
    JNull
  | JBool bool
  | JInt int
  | JFloat real
  | JString string
  | JArray "json list"
  | JObject "(string \<times> json) list"

text \<open>The exceptions the loader can raise, with the message where the source gives one.\<close>

datatype error =
    FileNotFoundError string
  | ValueError string
  | ImportError string
  | AttributeError
  | TypeError
  | DuplicateFieldError
  | OtherError string

subsection \<open>Python dictionaries\<close>

text \<open>\<open>k in d\<close>, \<open>d.get(k)\<close> and \<open>d[k] = v\<close> on a dict kept as an association list.\<close>

definition dict_in :: "'k \<Rightarrow> ('k \<times> 'v) list \<Rightarrow> bool" where
  "dict_in k d = (k \<in> fst ` set d)"

definition dict_get :: "('k \<times> 'v) list \<Rightarrow> 'k \<Rightarrow> 'v option" where
  "dict_get d k = map_of d k"

fun dict_set :: "('k \<times> 'v) list \<Rightarrow> 'k \<Rightarrow> 'v \<Rightarrow> ('k \<times> 'v) list" where
  "dict_set [] k v = [(k, v)]"
| "dict_set ((k', v') # d) k v =
     (if k' = k then (k, v) # d else (k', v') # dict_set d k v)"

subsection \<open>Membership and truth value of an arbitrary value\<close>

fun str_startswith :: "string \<Rightarrow> string \<Rightarrow> bool" where
  "str_startswith s [] = True"
| "str_startswith [] (c # p) = False"
| "str_startswith (d # s) (c # p) = (d = c \<and> str_startswith s p)"

fun str_contains :: "string \<Rightarrow> string \<Rightarrow> bool" where
  "str_contains [] p = (p = [])"
| "str_contains (c # s) p = (str_startswith (c # s) p \<or> str_contains s p)"

text \<open>
  \<open>key in x\<close> for a string \<open>key\<close>: key membership on a dict, element membership on a
  list, substring test on a str, and \<open>TypeError\<close> on \<open>None\<close>, bools and numbers, which
  are not iterable.
\<close>

fun py_in :: "string \<Rightarrow> json \<Rightarrow> error + bool" where
  "py_in k (JObject d) = Inr (dict_in k d)"
| "py_in k (JArray xs) = Inr (JString k \<in> set xs)"
| "py_in k (JString s) = Inr (str_contains s k)"
| "py_in k JNull = Inl TypeError"
| "py_in k (JBool b) = Inl TypeError"
| "py_in k (JInt i) = Inl TypeError"
| "py_in k (JFloat r) = Inl TypeError"

text \<open>\<open>if x:\<close>\<close>

fun truthy :: "json \<Rightarrow> bool" where
  "truthy JNull = False"
| "truthy (JBool b) = b"
| "truthy (JInt i) = (i \<noteq> 0)"
| "truthy (JFloat r) = (r \<noteq> 0)"
| "truthy (JString s) = (s \<noteq> [])"
| "truthy (JArray xs) = (xs \<noteq> [])"
| "truthy (JObject d) = (d \<noteq> [])"

section \<open>Resolved types and synthesized models\<close>

text \<open>
  The default of a field is \<open>...\<close> (\<open>Ellipsis\<close>: the field is required and has no
  default) or \<open>None\<close>. The field types are the values \<open>_json_type_to_python\<close> returns:
  \<open>str\<close>, \<open>float\<close>, \<open>int\<close>, \<open>bool\<close>, a synthesized model, \<open>Dict[str, Any]\<close>,
  \<open>List[t]\<close> and \<open>Any\<close>. A \<open>field_info\<close> is the dict with the keys \<open>type\<close>,
  \<open>default\<close> and, when the description is truthy, \<open>description\<close>.
\<close>

datatype default_val = Ellipsis | PyNone

datatype pytype =
    PyStr
  | PyFloat
  | PyInt
  | PyBool
  | PyModel model
  | PyDictStrAny
  | PyList pytype
  | PyAny
and model =
    Model (type_name: string) (type_fields: "(string \<times> field_info) list")
and field_info =
    FieldInfo (ftype: pytype) (fdefault: default_val) (fdescription: "json option")

text \<open>
  Modelled from the spec: \<open>create_base_model\<close> is imported from \<open>nomos.utils.utils\<close>,
  which is not among the sources. The spec's type factory
  \<open>synthesize(type_name, field_specs)\<close> assembles a descriptor with the given name and
  the given fields in their order, and rejects duplicate field names within one call
  with \<open>DuplicateFieldError\<close>.
\<close>

definition create_base_model :: "string \<Rightarrow> (string \<times> field_info) list \<Rightarrow> error + model" where
  "create_base_model name fields =
     (if distinct (map fst fields) then Inr (Model name fields)
      else Inl DuplicateFieldError)"

section \<open>The JSON-schema compiler\<close>

text \<open>
  \<open>_json_type_to_python\<close>, \<open>_json_schema_to_pydantic\<close> and the loop of the latter over
  \<open>schema["properties"].items()\<close>, here \<open>build_fields\<close> with the \<open>required\<close> value and
  the \<open>fields\<close> dict built so far. \<open>schema.get\<close> raises \<open>AttributeError\<close> on a value
  that is not a dict, as does \<open>.items()\<close>.
\<close>

text \<open>A value of a dict is smaller than the dict: the recursion below ends.\<close>

lemma size_map_of:
  "map_of d k = Some v \<Longrightarrow> size v < size_list (size_prod (\<lambda>_. 0) size) d"
  by (induction d) (auto split: if_splits)

lemma size_dict_get: "dict_get d k = Some v \<Longrightarrow> size v < size (JObject d)"
  by (auto simp: dict_get_def dest: size_map_of)

function json_type_to_python :: "json \<Rightarrow> error + pytype"
  and json_schema_to_pydantic :: "json \<Rightarrow> error + model"
  and build_fields ::
    "json \<Rightarrow> (string \<times> json) list \<Rightarrow> (string \<times> field_info) list
       \<Rightarrow> error + (string \<times> field_info) list"
where
  "json_type_to_python (JObject d) =
     (let json_type = dict_get d ''type'' in
      if json_type = Some (JString ''string'') then Inr PyStr
      else if json_type = Some (JString ''number'') then Inr PyFloat
      else if json_type = Some (JString ''integer'') then Inr PyInt
      else if json_type = Some (JString ''boolean'') then Inr PyBool
      else if json_type = Some (JString ''object'') then
        (if dict_in ''properties'' d then
           (case json_schema_to_pydantic (JObject d) of
              Inl e \<Rightarrow> Inl e
            | Inr m \<Rightarrow> Inr (PyModel m))
         else Inr PyDictStrAny)
      else if json_type = Some (JString ''array'') then
        (case dict_get d ''items'' of
           Some items \<Rightarrow>
             (case json_type_to_python items of
                Inl e \<Rightarrow> Inl e
              | Inr item_type \<Rightarrow> Inr (PyList item_type))
         | None \<Rightarrow> Inr (PyList PyAny))
      else Inr PyAny)"
| "json_type_to_python JNull = Inl AttributeError"
| "json_type_to_python (JBool b) = Inl AttributeError"
| "json_type_to_python (JInt i) = Inl AttributeError"
| "json_type_to_python (JFloat r) = Inl AttributeError"
| "json_type_to_python (JString s) = Inl AttributeError"
| "json_type_to_python (JArray xs) = Inl AttributeError"
| "json_schema_to_pydantic (JObject d) =
     (case dict_get d ''properties'' of
        Some properties \<Rightarrow>
          (let required = (case dict_get d ''required'' of Some r \<Rightarrow> r | None \<Rightarrow> JArray []) in
           case properties of
             JObject props \<Rightarrow>
               (case build_fields required props [] of
                  Inl e \<Rightarrow> Inl e
                | Inr fields \<Rightarrow> create_base_model ''DynamicModel'' fields)
           | _ \<Rightarrow> Inl AttributeError)
      | None \<Rightarrow> create_base_model ''DynamicModel'' [])"
| "json_schema_to_pydantic (JArray xs) =
     (if JString ''properties'' \<in> set xs then Inl AttributeError
      else create_base_model ''DynamicModel'' [])"
| "json_schema_to_pydantic (JString s) =
     (if str_contains s ''properties'' then Inl AttributeError
      else create_base_model ''DynamicModel'' [])"
| "json_schema_to_pydantic JNull = Inl TypeError"
| "json_schema_to_pydantic (JBool b) = Inl TypeError"
| "json_schema_to_pydantic (JInt i) = Inl TypeError"
| "json_schema_to_pydantic (JFloat r) = Inl TypeError"
| "build_fields required [] fields = Inr fields"
| "build_fields required ((prop_name, prop_schema) # rest) fields =
     (case json_type_to_python prop_schema of
        Inl e \<Rightarrow> Inl e
      | Inr field_type \<Rightarrow>
          (case py_in prop_name required of
             Inl e \<Rightarrow> Inl e
           | Inr is_req \<Rightarrow>
               (let default_val = (if is_req then Ellipsis else PyNone);
                    description =
                      (case prop_schema of
                         JObject pd \<Rightarrow>
                           (case dict_get pd ''description'' of
                              Some v \<Rightarrow> v
                            | None \<Rightarrow> JString [])
                       | _ \<Rightarrow> JString []);
                    field_info =
                      (if truthy description
                       then FieldInfo field_type default_val (Some description)
                       else FieldInfo field_type default_val None)
                in build_fields required rest (dict_set fields prop_name field_info))))"
  by pat_completeness auto

termination
  apply (relation "measure (\<lambda>x. case x of
        Inl s \<Rightarrow> 2 * size s + 1
      | Inr (Inl s) \<Rightarrow> 2 * size s
      | Inr (Inr (r, props, fs)) \<Rightarrow> 2 * size_list (size_prod (\<lambda>_. 0) size) props + 1)")
      apply (auto dest: size_dict_get)
  done

text \<open>
  The schemas on which the compiler raises nothing: a dict whose \<open>properties\<close>, when
  present, are a dict of such schemas, whose \<open>required\<close>, when present, is a list, and
  whose \<open>items\<close>, when present, is such a schema.
\<close>

inductive schema_ok :: "json \<Rightarrow> bool" where
  "(\<And>v. dict_get d ''properties'' = Some v \<Longrightarrow>
       \<exists>props. v = JObject props \<and> (\<forall>k s. (k, s) \<in> set props \<longrightarrow> schema_ok s)) \<Longrightarrow>
   (\<And>r. dict_get d ''required'' = Some r \<Longrightarrow> \<exists>names. r = JArray names) \<Longrightarrow>
   (\<And>v. dict_get d ''items'' = Some v \<Longrightarrow> schema_ok v) \<Longrightarrow>
   schema_ok (JObject d)"

section \<open>Models held by the registry\<close>

text \<open>
  A class of a loaded module: its qualified name and its direct bases. \<open>BaseModel\<close> is
  pydantic's class. An attribute of a module is a class or some other value.
\<close>

datatype pyclass = PyClass (class_name: string) (class_bases: "pyclass list")

datatype pyobj = PyType pyclass | PyOther

definition BaseModel :: pyclass where
  "BaseModel = PyClass ''pydantic.main.BaseModel'' []"

fun issubclass :: "pyclass \<Rightarrow> pyclass \<Rightarrow> bool" where
  "issubclass (PyClass n bs) b = (PyClass n bs = b \<or> (\<exists>x \<in> set bs. issubclass x b))"

text \<open>
  The values of the registry are classes: a model synthesized from a schema document or
  a class found in a module.
\<close>

datatype model_type = Synthesized model | Native pyclass

type_synonym models = "(string \<times> model_type) list"

subsection \<open>Compiling a document (lines 50 to 68 of \<open>_load_json_schema\<close>)\<close>

text \<open>The loop over the root properties: a model for every property that is an object with properties.\<close>

fun property_models :: "(string \<times> json) list \<Rightarrow> models \<Rightarrow> error + models" where
  "property_models [] models = Inr models"
| "property_models ((prop_name, prop_schema) # rest) models =
     (case prop_schema of
        JObject pd \<Rightarrow>
          (if dict_get pd ''type'' = Some (JString ''object'') \<and> dict_in ''properties'' pd then
             (case json_schema_to_pydantic prop_schema of
                Inl e \<Rightarrow> Inl e
              | Inr prop_model \<Rightarrow>
                  property_models rest (dict_set models prop_name (Synthesized prop_model)))
           else property_models rest models)
      | _ \<Rightarrow> Inl AttributeError)"

text \<open>The loop over the definitions.\<close>

fun definition_models :: "(string \<times> json) list \<Rightarrow> models \<Rightarrow> error + models" where
  "definition_models [] models = Inr models"
| "definition_models ((def_name, def_schema) # rest) models =
     (case json_schema_to_pydantic def_schema of
        Inl e \<Rightarrow> Inl e
      | Inr model \<Rightarrow> definition_models rest (dict_set models def_name (Synthesized model)))"

text \<open>The root model and the models of its properties (lines 53 to 62).\<close>

definition root_models :: "string \<Rightarrow> json \<Rightarrow> error + models" where
  "root_models name schema_data =
     (case json_schema_to_pydantic schema_data of
        Inl e \<Rightarrow> Inl e
      | Inr model \<Rightarrow>
          (let models = dict_set [] name (Synthesized model) in
           case schema_data of
             JObject d \<Rightarrow>
               (case dict_get d ''properties'' of
                  None \<Rightarrow> Inr models
                | Some (JObject props) \<Rightarrow> property_models props models
                | Some _ \<Rightarrow> Inl AttributeError)
           | _ \<Rightarrow> Inl AttributeError))"

text \<open>
  The definitions (lines 65 to 68). \<open>schema_data["definitions"]\<close> raises \<open>TypeError\<close>
  on a list or a str, \<open>.items()\<close> raises \<open>AttributeError\<close> on a value that is not a dict.
\<close>

definition definitions_of :: "json \<Rightarrow> error + json" where
  "definitions_of schema_data =
     (case schema_data of
        JObject d \<Rightarrow>
          (case dict_get d ''definitions'' of
             Some v \<Rightarrow> Inr v
           | None \<Rightarrow> Inl (OtherError ''KeyError''))
      | _ \<Rightarrow> Inl TypeError)"

definition compile_models :: "string \<Rightarrow> json \<Rightarrow> error + models" where
  "compile_models name schema_data =
     (case py_in ''properties'' schema_data of
        Inl e \<Rightarrow> Inl e
      | Inr has_properties \<Rightarrow>
          (case (if has_properties then root_models name schema_data else Inr []) of
             Inl e \<Rightarrow> Inl e
           | Inr models \<Rightarrow>
               (case py_in ''definitions'' schema_data of
                  Inl e \<Rightarrow> Inl e
                | Inr has_definitions \<Rightarrow>
                    (if has_definitions then
                       (case definitions_of schema_data of
                          Inl e \<Rightarrow> Inl e
                        | Inr (JObject defs) \<Rightarrow> definition_models defs models
                        | Inr _ \<Rightarrow> Inl AttributeError)
                     else Inr models))))"

section \<open>The files and the registry\<close>

text \<open>
  What the loader asks of the world: \<open>os.path.exists\<close>, the result of opening a file and
  \<open>json.load\<close> on it, and \<open>importlib.util.spec_from_file_location\<close>. A module spec has
  a loader or none; running the loader (\<open>module_from_spec\<close>, \<open>exec_module\<close>) raises or
  gives the module, seen through \<open>dir\<close> and \<open>getattr\<close> as its attributes by name.
\<close>

datatype module_spec = ModuleSpec (loader: "(error + (string \<times> pyobj) list) option")

record env =
  path_exists :: "string \<Rightarrow> bool"
  json_load :: "string \<Rightarrow> error + json"
  spec_from_file_location :: "string \<Rightarrow> string \<Rightarrow> module_spec option"

record registry =
  schemas :: "string \<rightharpoonup> models"

definition init :: registry where
  "init = \<lparr>schemas = Map.empty\<rparr>"

subsection \<open>Paths (\<open>posixpath\<close>)\<close>

definition path_join :: "string \<Rightarrow> string \<Rightarrow> string" where
  "path_join a b =
     (if str_startswith b ''/'' then b
      else if a = [] \<or> last a = CHR ''/'' then a @ b
      else a @ ''/'' @ b)"

text \<open>
  \<open>os.path.splitext(p)[1]\<close>: the part of the last path component from its last dot on,
  empty when there is no dot or only dots come before it.
\<close>

definition splitext_ext :: "string \<Rightarrow> string" where
  "splitext_ext p =
     (let base = rev (takeWhile (\<lambda>c. c \<noteq> CHR ''/'') (rev p));
          ext = rev (takeWhile (\<lambda>c. c \<noteq> CHR ''.'') (rev base));
          stem = take (length base - length ext - 1) base
      in if CHR ''.'' \<in> set base \<and> (\<exists>c \<in> set stem. c \<noteq> CHR ''.'') then CHR ''.'' # ext else [])"

text \<open>\<open>str.lower()\<close> on the ASCII letters; a path is a byte string here.\<close>

definition char_lower :: "char \<Rightarrow> char" where
  "char_lower c =
     (case map_of (zip ''ABCDEFGHIJKLMNOPQRSTUVWXYZ'' ''abcdefghijklmnopqrstuvwxyz'') c of
        Some l \<Rightarrow> l
      | None \<Rightarrow> c)"

definition str_lower :: "string \<Rightarrow> string" where
  "str_lower s = map char_lower s"

subsection \<open>\<open>SchemaRegistry\<close>\<close>

definition load_json_schema ::
  "env \<Rightarrow> registry \<Rightarrow> string \<Rightarrow> string \<Rightarrow> (error + models) \<times> registry" where
  "load_json_schema w reg name file_path =
     (case json_load w file_path of
        Inl e \<Rightarrow> (Inl e, reg)
      | Inr schema_data \<Rightarrow>
          (case compile_models name schema_data of
             Inl e \<Rightarrow> (Inl e, reg)
           | Inr models \<Rightarrow> (Inr models, reg\<lparr>schemas := (schemas reg)(name \<mapsto> models)\<rparr>)))"

text \<open>The scan of \<open>dir(module)\<close> for the subclasses of \<open>BaseModel\<close>.\<close>

fun scan_module :: "(string \<times> pyobj) list \<Rightarrow> models \<Rightarrow> models" where
  "scan_module [] models = models"
| "scan_module ((attr_name, attr) # rest) models =
     (case attr of
        PyType c \<Rightarrow>
          (if issubclass c BaseModel \<and> c \<noteq> BaseModel
           then scan_module rest (dict_set models attr_name (Native c))
           else scan_module rest models)
      | PyOther \<Rightarrow> scan_module rest models)"

definition load_python_schema ::
  "env \<Rightarrow> registry \<Rightarrow> string \<Rightarrow> string \<Rightarrow> (error + models) \<times> registry" where
  "load_python_schema w reg name file_path =
     (case spec_from_file_location w name file_path of
        None \<Rightarrow> (Inl (ImportError (''Could not load Python module: '' @ file_path)), reg)
      | Some spec \<Rightarrow>
          (case loader spec of
             None \<Rightarrow> (Inl (ImportError (''Could not load Python module: '' @ file_path)), reg)
           | Some (Inl e) \<Rightarrow> (Inl e, reg)
           | Some (Inr attrs) \<Rightarrow>
               (let models = scan_module attrs []
                in (Inr models, reg\<lparr>schemas := (schemas reg)(name \<mapsto> models)\<rparr>))))"

text \<open>Lines 30 and 31: the path the call reads, \<open>base_path\<close> joined when it is truthy.\<close>

definition resolved_path :: "string \<Rightarrow> string option \<Rightarrow> string" where
  "resolved_path file_path base_path =
     (case base_path of
        None \<Rightarrow> file_path
      | Some b \<Rightarrow> if b \<noteq> [] then path_join b file_path else file_path)"

definition load_schema ::
  "env \<Rightarrow> registry \<Rightarrow> string \<Rightarrow> string \<Rightarrow> string option \<Rightarrow> (error + models) \<times> registry" where
  "load_schema w reg name file_path base_path =
     (let file_path = resolved_path file_path base_path
      in if \<not> path_exists w file_path
         then (Inl (FileNotFoundError (''Schema file not found: '' @ file_path)), reg)
         else
           (let file_ext = str_lower (splitext_ext file_path)
            in if file_ext = ''.json'' then load_json_schema w reg name file_path
               else if file_ext = ''.py'' then load_python_schema w reg name file_path
               else (Inl (ValueError (''Unsupported schema file type: '' @ file_ext)), reg)))"

definition quoted :: "string \<Rightarrow> string" where
  "quoted s = [CHR 0x27] @ s @ [CHR 0x27]"

definition get_model ::
  "registry \<Rightarrow> string \<Rightarrow> string \<Rightarrow> (error + model_type) \<times> registry" where
  "get_model reg schema_name model_name =
     (case schemas reg schema_name of
        None \<Rightarrow> (Inl (ValueError (''Schema '' @ quoted schema_name @ '' not found'')), reg)
      | Some schema_models \<Rightarrow>
          (case dict_get schema_models model_name of
             None \<Rightarrow>
               (Inl (ValueError (''Model '' @ quoted model_name @ '' not found in schema ''
                                   @ quoted schema_name)), reg)
           | Some m \<Rightarrow> (Inr m, reg)))"

section \<open>Example documents and files\<close>

text \<open>
  The document of the spec's scenario, compiled there under the root name \<open>Person\<close>:
  an integer \<open>age\<close>, which is required, and an \<open>address\<close> object with a string \<open>city\<close>.
  \<open>person_model\<close> and \<open>address_model\<close> are the models it compiles to.
\<close>

definition address_schema :: "(string \<times> json) list" where
  "address_schema =
     [(''type'', JString ''object''),
      (''properties'', JObject [(''city'', JObject [(''type'', JString ''string'')])])]"

definition person_properties :: "(string \<times> json) list" where
  "person_properties =
     [(''age'', JObject [(''type'', JString ''integer'')]),
      (''address'', JObject address_schema)]"

definition person_dict :: "(string \<times> json) list" where
  "person_dict =
     [(''properties'', JObject person_properties), (''required'', JArray [JString ''age''])]"

definition address_model :: model where
  "address_model = Model ''DynamicModel'' [(''city'', FieldInfo PyStr PyNone None)]"

definition person_model :: model where
  "person_model =
     Model ''DynamicModel''
       [(''age'', FieldInfo PyInt Ellipsis None),
        (''address'', FieldInfo (PyModel address_model) PyNone None)]"

text \<open>The same document with a definition \<open>Trip\<close>, which has no properties.\<close>

definition trip_definitions :: "(string \<times> json) list" where
  "trip_definitions = [(''Trip'', JObject [])]"

definition person_with_definitions :: "(string \<times> json) list" where
  "person_with_definitions =
     [(''properties'', JObject person_properties),
      (''required'', JArray [JString ''age'']),
      (''definitions'', JObject trip_definitions)]"

definition trip_models :: models where
  "trip_models =
     [(''Person'', Synthesized person_model),
      (''address'', Synthesized address_model),
      (''Trip'', Synthesized (Model ''DynamicModel'' []))]"

text \<open>
  A document whose definitions hold an entry with the name of a nested object property.
\<close>

definition zip_model :: model where
  "zip_model = Model ''DynamicModel'' [(''zip'', FieldInfo PyInt PyNone None)]"

definition shadowed_document :: json where
  "shadowed_document =
     JObject
       [(''properties'', JObject [(''address'', JObject address_schema)]),
        (''definitions'',
         JObject
           [(''address'',
             JObject [(''properties'', JObject [(''zip'', JObject [(''type'', JString ''integer'')])])])])]"

definition old_document :: json where
  "old_document = JObject [(''definitions'', JObject [(''Old'', JObject [])])]"

definition new_document :: json where
  "new_document = JObject [(''definitions'', JObject [(''New'', JObject [])])]"

text \<open>
  A directory \<open>schemas\<close> with \<open>trip.json\<close>, holding the given document, and \<open>trip.yaml\<close>.
\<close>

definition files_with :: "json \<Rightarrow> env" where
  "files_with doc =
     \<lparr>path_exists = (\<lambda>p. p = ''schemas/trip.json'' \<or> p = ''schemas/trip.yaml''),
      json_load = (\<lambda>p. Inr doc),
      spec_from_file_location = (\<lambda>n p. None)\<rparr>"

text \<open>
  The module \<open>itinerary_schema.py\<close> of the cookbook: three models, the imported
  \<open>BaseModel\<close> and \<open>List\<close>, and a module attribute.
\<close>

definition itinerary_attrs :: "(string \<times> pyobj) list" where
  "itinerary_attrs =
     [(''Activity'', PyType (PyClass ''itinerary_schema.Activity'' [BaseModel])),
      (''BaseModel'', PyType BaseModel),
      (''DayPlan'', PyType (PyClass ''itinerary_schema.DayPlan'' [BaseModel])),
      (''Itinerary'', PyType (PyClass ''itinerary_schema.Itinerary'' [BaseModel])),
      (''List'', PyOther),
      (''__name__'', PyOther)]"

definition module_files :: "(string \<times> pyobj) list \<Rightarrow> env" where
  "module_files attrs =
     \<lparr>path_exists = (\<lambda>p. p = ''itinerary_schema.py''),
      json_load = (\<lambda>p. Inl (OtherError ''JSONDecodeError'')),
      spec_from_file_location = (\<lambda>n p. Some (ModuleSpec (Some (Inr attrs))))\<rparr>"

section \<open>Facts about dictionaries\<close>

lemma dict_get_None_iff: "dict_get d k = None \<longleftrightarrow> \<not> dict_in k d"
  by (simp add: dict_get_def dict_in_def map_of_eq_None_iff)

lemma dict_get_Some_in: "dict_get d k = Some v \<Longrightarrow> dict_in k d"
  using dict_get_None_iff [of d k] by simp

lemma dict_get_Cons: "dict_get ((a, b) # d) k = (if k = a then Some b else dict_get d k)"
  by (simp add: dict_get_def)

lemma dict_get_Nil: "dict_get [] k = None"
  by (simp add: dict_get_def)

lemma dict_get_Some_iff:
  "distinct (map fst d) \<Longrightarrow> dict_get d k = Some v \<longleftrightarrow> (k, v) \<in> set d"
  by (simp add: dict_get_def)

lemma dict_get_dict_set: "dict_get (dict_set d k v) k' = (if k' = k then Some v else dict_get d k')"
  by (induction d) (auto simp: dict_get_def)

lemma keys_dict_set: "fst ` set (dict_set d k v) = insert k (fst ` set d)"
proof (induction d)
  case Nil
  show ?case by simp
next
  case (Cons a d)
  obtain k' v' where a: "a = (k', v')"
    by (cases a)
  show ?case
  proof (cases "k' = k")
    case True
    then show ?thesis by (simp add: a)
  next
    case False
    then have "fst ` set (dict_set (a # d) k v) = insert k' (fst ` set (dict_set d k v))"
      by (simp add: a)
    also have "\<dots> = insert k' (insert k (fst ` set d))"
      by (simp only: Cons.IH)
    finally show ?thesis
      by (auto simp: a)
  qed
qed

lemma dict_in_dict_set: "dict_in k' (dict_set d k v) \<longleftrightarrow> k' = k \<or> dict_in k' d"
  by (auto simp: dict_in_def keys_dict_set)

lemma distinct_dict_set: "distinct (map fst d) \<Longrightarrow> distinct (map fst (dict_set d k v))"
  by (induction d) (auto simp: keys_dict_set)

text \<open>
  The definitions unfolded to evaluate a call on an example.
\<close>

lemmas example_defs =
  load_schema_def load_json_schema_def load_python_schema_def resolved_path_def path_join_def
  str_lower_def splitext_ext_def char_lower_def compile_models_def definitions_of_def
  root_models_def create_base_model_def dict_get_def dict_in_def files_with_def
  person_dict_def person_properties_def address_schema_def person_model_def address_model_def
  zip_model_def shadowed_document_def trip_definitions_def person_with_definitions_def
  trip_models_def

section \<open>The loop over the properties\<close>

lemma build_fields_other:
  "build_fields r props acc = Inr fs \<Longrightarrow> \<not> dict_in k props \<Longrightarrow>
     dict_get fs k = dict_get acc k"
  by (induction props arbitrary: acc)
     (auto split: sum.splits if_splits simp: Let_def dict_get_dict_set dict_in_def)

lemma build_fields_Cons:
  assumes "build_fields r ((pn, pv) # props) acc = Inr fs"
  shows "\<exists>t is_req fi. json_type_to_python pv = Inr t \<and> py_in pn r = Inr is_req
           \<and> ftype fi = t \<and> fdefault fi = (if is_req then Ellipsis else PyNone)
           \<and> build_fields r props (dict_set acc pn fi) = Inr fs"
proof -
  obtain t where t: "json_type_to_python pv = Inr t"
    using assms by (cases "json_type_to_python pv") auto
  obtain q where q: "py_in pn r = Inr q"
    using assms t by (cases "py_in pn r") auto
  let ?desc = "case pv of
                 JObject pd \<Rightarrow>
                   (case dict_get pd ''description'' of Some v \<Rightarrow> v | None \<Rightarrow> JString [])
               | _ \<Rightarrow> JString []"
  let ?dv = "if q then Ellipsis else PyNone"
  let ?fi = "if truthy ?desc then FieldInfo t ?dv (Some ?desc) else FieldInfo t ?dv None"
  have "build_fields r props (dict_set acc pn ?fi) = Inr fs"
    using assms t q by (simp add: Let_def)
  moreover have "ftype ?fi = t" and "fdefault ?fi = ?dv"
    by simp_all
  ultimately show ?thesis
    using t q by blast
qed

lemma build_fields_field:
  "build_fields r props acc = Inr fs \<Longrightarrow> distinct (map fst props) \<Longrightarrow>
   (p, ps) \<in> set props \<Longrightarrow>
     \<exists>fi t is_req. json_type_to_python ps = Inr t \<and> py_in p r = Inr is_req
        \<and> dict_get fs p = Some fi \<and> ftype fi = t
        \<and> fdefault fi = (if is_req then Ellipsis else PyNone)"
proof (induction props arbitrary: acc)
  case Nil
  then show ?case by simp
next
  case (Cons a props)
  obtain pn pv where a: "a = (pn, pv)"
    by (cases a)
  from build_fields_Cons [OF Cons.prems(1) [unfolded a]] obtain t is_req fi where
    t: "json_type_to_python pv = Inr t" and rq: "py_in pn r = Inr is_req"
    and fi: "ftype fi = t" "fdefault fi = (if is_req then Ellipsis else PyNone)"
    and rest: "build_fields r props (dict_set acc pn fi) = Inr fs"
    by blast
  show ?case
  proof (cases "(p, ps) \<in> set props")
    case True
    with Cons.IH [OF rest] Cons.prems(2) show ?thesis
      by simp
  next
    case False
    with Cons.prems(3) have eq: "p = pn" "ps = pv"
      by (auto simp: a)
    from Cons.prems(2) have "\<not> dict_in pn props"
      by (auto simp: a dict_in_def)
    from build_fields_other [OF rest this] have "dict_get fs pn = Some fi"
      by (simp add: dict_get_dict_set)
    with t rq fi eq show ?thesis
      by blast
  qed
qed

lemma build_fields_default:
  "build_fields (JArray req) props acc = Inr fs \<Longrightarrow> dict_in p props \<Longrightarrow>
     \<exists>fi. dict_get fs p = Some fi
        \<and> fdefault fi = (if JString p \<in> set req then Ellipsis else PyNone)"
proof (induction props arbitrary: acc)
  case Nil
  then show ?case by (simp add: dict_in_def)
next
  case (Cons a props)
  obtain pn pv where a: "a = (pn, pv)"
    by (cases a)
  from build_fields_Cons [OF Cons.prems(1) [unfolded a]] obtain fi where
    fi: "fdefault fi = (if JString pn \<in> set req then Ellipsis else PyNone)"
    and rest: "build_fields (JArray req) props (dict_set acc pn fi) = Inr fs"
    by auto
  show ?case
  proof (cases "dict_in p props")
    case True
    with Cons.IH [OF rest] show ?thesis
      by simp
  next
    case False
    with Cons.prems(2) have eq: "p = pn"
      by (auto simp: a dict_in_def)
    from build_fields_other [OF rest False] have "dict_get fs p = Some fi"
      by (simp add: dict_get_dict_set eq)
    with fi eq show ?thesis
      by blast
  qed
qed

lemma build_fields_keys:
  "build_fields r props acc = Inr fs \<Longrightarrow> fst ` set fs = fst ` set acc \<union> fst ` set props"
proof (induction props arbitrary: acc)
  case Nil
  then show ?case by simp
next
  case (Cons a props)
  obtain pn pv where a: "a = (pn, pv)"
    by (cases a)
  from build_fields_Cons [OF Cons.prems(1) [unfolded a]] obtain fi where
    "build_fields r props (dict_set acc pn fi) = Inr fs"
    by blast
  from Cons.IH [OF this] show ?case
    by (auto simp: a keys_dict_set)
qed

lemma build_fields_distinct:
  "build_fields r props acc = Inr fs \<Longrightarrow> distinct (map fst acc) \<Longrightarrow> distinct (map fst fs)"
proof (induction props arbitrary: acc)
  case Nil
  then show ?case by simp
next
  case (Cons a props)
  obtain pn pv where a: "a = (pn, pv)"
    by (cases a)
  from build_fields_Cons [OF Cons.prems(1) [unfolded a]] obtain fi where
    "build_fields r props (dict_set acc pn fi) = Inr fs"
    by blast
  from Cons.IH [OF this] Cons.prems(2) show ?case
    by (simp add: distinct_dict_set)
qed

lemma json_schema_to_pydantic_fields:
  assumes "json_schema_to_pydantic (JObject d) = Inr m"
    and "dict_get d ''properties'' = Some (JObject props)"
  shows "type_name m = ''DynamicModel''
    \<and> build_fields (case dict_get d ''required'' of Some r \<Rightarrow> r | None \<Rightarrow> JArray []) props []
         = Inr (type_fields m)"
  using assms
  by (auto simp: create_base_model_def Let_def split: sum.splits if_splits)

text \<open>
  The compiler hands the factory a dict, so the fields it passes never repeat a name.
\<close>

lemma compiler_fields_distinct:
  "json_schema_to_pydantic schema = Inr m \<Longrightarrow> distinct (map fst (type_fields m))"
  by (cases schema)
     (auto simp: create_base_model_def Let_def split: option.splits sum.splits if_splits json.splits)

section \<open>The type mapping\<close>

text \<open>
  C1. The type \<open>_json_type_to_python\<close> resolves a field schema (a dict) to follows its
  \<open>type\<close> tag: \<open>string\<close> gives \<open>str\<close>, \<open>number\<close> gives \<open>float\<close>, \<open>integer\<close> gives
  \<open>int\<close>, \<open>boolean\<close> gives \<open>bool\<close>; \<open>object\<close> with a \<open>properties\<close> key gives the model
  compiled from the same schema by \<open>_json_schema_to_pydantic\<close> (or its error), \<open>object\<close>
  without it gives \<open>Dict[str, Any]\<close>; \<open>array\<close> with an \<open>items\<close> schema gives the list
  of the type resolved for the items (or its error), \<open>array\<close> without it gives
  \<open>List[Any]\<close>; any other tag, and a missing one, gives \<open>Any\<close>.
\<close>

theorem json_type_mapping:
  "(dict_get d ''type'' = Some (JString ''string'') \<longrightarrow> json_type_to_python (JObject d) = Inr PyStr)
   \<and> (dict_get d ''type'' = Some (JString ''number'') \<longrightarrow>
        json_type_to_python (JObject d) = Inr PyFloat)
   \<and> (dict_get d ''type'' = Some (JString ''integer'') \<longrightarrow>
        json_type_to_python (JObject d) = Inr PyInt)
   \<and> (dict_get d ''type'' = Some (JString ''boolean'') \<longrightarrow>
        json_type_to_python (JObject d) = Inr PyBool)
   \<and> (dict_get d ''type'' = Some (JString ''object'') \<and> dict_in ''properties'' d \<longrightarrow>
        json_type_to_python (JObject d) =
          (case json_schema_to_pydantic (JObject d) of
             Inl e \<Rightarrow> Inl e
           | Inr m \<Rightarrow> Inr (PyModel m)))
   \<and> (dict_get d ''type'' = Some (JString ''object'') \<and> \<not> dict_in ''properties'' d \<longrightarrow>
        json_type_to_python (JObject d) = Inr PyDictStrAny)
   \<and> (\<forall>items. dict_get d ''type'' = Some (JString ''array'')
          \<and> dict_get d ''items'' = Some items \<longrightarrow>
        json_type_to_python (JObject d) =
          (case json_type_to_python items of
             Inl e \<Rightarrow> Inl e
           | Inr item_type \<Rightarrow> Inr (PyList item_type)))
   \<and> (dict_get d ''type'' = Some (JString ''array'') \<and> \<not> dict_in ''items'' d \<longrightarrow>
        json_type_to_python (JObject d) = Inr (PyList PyAny))
   \<and> (dict_get d ''type'' \<notin>
          {Some (JString ''string''), Some (JString ''number''), Some (JString ''integer''),
           Some (JString ''boolean''), Some (JString ''object''), Some (JString ''array'')} \<longrightarrow>
        json_type_to_python (JObject d) = Inr PyAny)"
  by (auto simp: dict_get_None_iff simp del: json_schema_to_pydantic.simps
        split: option.splits dest: dict_get_Some_in)

theorem json_type_mapping_witness:
  "dict_get [(''type'', JString ''string'')] ''type'' = Some (JString ''string'')
   \<and> json_type_to_python (JObject [(''type'', JString ''string'')]) = Inr PyStr
   \<and> json_type_to_python (JObject [(''type'', JString ''number'')]) = Inr PyFloat
   \<and> json_type_to_python (JObject [(''type'', JString ''integer'')]) = Inr PyInt
   \<and> json_type_to_python (JObject [(''type'', JString ''boolean'')]) = Inr PyBool
   \<and> dict_get address_schema ''type'' = Some (JString ''object'')
   \<and> dict_in ''properties'' address_schema
   \<and> json_type_to_python (JObject address_schema) = Inr (PyModel address_model)
   \<and> \<not> dict_in ''properties'' [(''type'', JString ''object'')]
   \<and> json_type_to_python (JObject [(''type'', JString ''object'')]) = Inr PyDictStrAny
   \<and> dict_get [(''type'', JString ''array''), (''items'', JObject [(''type'', JString ''number'')])]
        ''items'' = Some (JObject [(''type'', JString ''number'')])
   \<and> json_type_to_python
        (JObject [(''type'', JString ''array''), (''items'', JObject [(''type'', JString ''number'')])])
        = Inr (PyList PyFloat)
   \<and> \<not> dict_in ''items'' [(''type'', JString ''array'')]
   \<and> json_type_to_python (JObject [(''type'', JString ''array'')]) = Inr (PyList PyAny)
   \<and> dict_get [(''type'', JString ''null'')] ''type'' = Some (JString ''null'')
   \<and> json_type_to_python (JObject [(''type'', JString ''null'')]) = Inr PyAny
   \<and> dict_get ([] :: (string \<times> json) list) ''type'' = None
   \<and> json_type_to_python (JObject []) = Inr PyAny"
  using json_type_mapping [of "[(''type'', JString ''string'')]"]
    json_type_mapping [of "[(''type'', JString ''number'')]"]
    json_type_mapping [of "[(''type'', JString ''integer'')]"]
    json_type_mapping [of "[(''type'', JString ''boolean'')]"]
    json_type_mapping [of address_schema]
    json_type_mapping [of "[(''type'', JString ''object'')]"]
    json_type_mapping
      [of "[(''type'', JString ''array''), (''items'', JObject [(''type'', JString ''number'')])]"]
    json_type_mapping [of "[(''type'', JString ''array'')]"]
    json_type_mapping [of "[(''type'', JString ''null'')]"]
    json_type_mapping [of "[]"]
  by (simp add: example_defs)

section \<open>Required and optional fields\<close>

lemma person_compiles:
  "json_schema_to_pydantic (JObject person_dict) = Inr person_model"
  by (simp add: example_defs)

text \<open>
  C2. When an object schema with a \<open>required\<close> list compiles, every property has a
  field in the model; the default of the field is \<open>...\<close> (mandatory, no default) when
  the property's name is in the list, and \<open>None\<close>, whatever the field's type, when it
  is not.
\<close>

theorem required_policy:
  assumes "json_schema_to_pydantic (JObject d) = Inr m"
    and "dict_get d ''properties'' = Some (JObject props)"
    and "dict_get d ''required'' = Some (JArray required)"
  shows "\<forall>prop_name. dict_in prop_name props \<longrightarrow>
           (\<exists>fi. dict_get (type_fields m) prop_name = Some fi
              \<and> fdefault fi = (if JString prop_name \<in> set required then Ellipsis else PyNone))"
proof -
  from json_schema_to_pydantic_fields [OF assms(1,2)] assms(3)
  have "build_fields (JArray required) props [] = Inr (type_fields m)"
    by simp
  then show ?thesis
    by (blast dest: build_fields_default)
qed

theorem required_policy_witness:
  "json_schema_to_pydantic (JObject person_dict) = Inr person_model
   \<and> dict_get person_dict ''properties'' = Some (JObject person_properties)
   \<and> dict_get person_dict ''required'' = Some (JArray [JString ''age''])
   \<and> dict_in ''age'' person_properties \<and> dict_in ''address'' person_properties
   \<and> (\<exists>fi. dict_get (type_fields person_model) ''age'' = Some fi \<and> fdefault fi = Ellipsis)
   \<and> (\<exists>fi. dict_get (type_fields person_model) ''address'' = Some fi \<and> fdefault fi = PyNone)"
proof -
  have a: "json_schema_to_pydantic (JObject person_dict) = Inr person_model"
    by (rule person_compiles)
  have b: "dict_get person_dict ''properties'' = Some (JObject person_properties)"
    and c: "dict_get person_dict ''required'' = Some (JArray [JString ''age''])"
    by (simp_all add: person_dict_def dict_get_def)
  have d: "dict_in ''age'' person_properties" "dict_in ''address'' person_properties"
    by (simp_all add: person_properties_def dict_in_def)
  from required_policy [OF a b c, rule_format, OF d(1)]
  have e: "\<exists>fi. dict_get (type_fields person_model) ''age'' = Some fi \<and> fdefault fi = Ellipsis"
    by simp
  from required_policy [OF a b c, rule_format, OF d(2)]
  have f: "\<exists>fi. dict_get (type_fields person_model) ''address'' = Some fi \<and> fdefault fi = PyNone"
    by simp
  from a b c d e f show ?thesis
    by blast
qed

section \<open>The models of a document\<close>

lemma property_models_keep:
  "property_models props acc = Inr ms \<Longrightarrow>
   (\<forall>pd. (k, JObject pd) \<in> set props \<longrightarrow>
      \<not> (dict_get pd ''type'' = Some (JString ''object'') \<and> dict_in ''properties'' pd)) \<Longrightarrow>
   dict_get ms k = dict_get acc k"
proof (induction props arbitrary: acc)
  case Nil
  then show ?case by simp
next
  case (Cons a props)
  obtain pn pv where a: "a = (pn, pv)"
    by (cases a)
  from Cons.prems(1) obtain pd where pv: "pv = JObject pd"
    by (cases pv) (simp_all add: a)
  show ?case
  proof (cases "dict_get pd ''type'' = Some (JString ''object'') \<and> dict_in ''properties'' pd")
    case True
    with Cons.prems(2) have ne: "k \<noteq> pn"
      by (auto simp: a pv)
    from True Cons.prems(1) obtain pm where
      "property_models props (dict_set acc pn (Synthesized pm)) = Inr ms"
      by (auto simp: a pv split: sum.splits)
    from Cons.IH [OF this] Cons.prems(2) ne show ?thesis
      by (simp add: dict_get_dict_set)
  next
    case False
    with Cons.prems(1) have "property_models props acc = Inr ms"
      by (auto simp: a pv)
    from Cons.IH [OF this] Cons.prems(2) show ?thesis
      by simp
  qed
qed

lemma property_models_sibling:
  "property_models props acc = Inr ms \<Longrightarrow> distinct (map fst props) \<Longrightarrow>
   (p, JObject pd) \<in> set props \<Longrightarrow>
   dict_get pd ''type'' = Some (JString ''object'') \<Longrightarrow> dict_in ''properties'' pd \<Longrightarrow>
   \<exists>pm. json_schema_to_pydantic (JObject pd) = Inr pm \<and> dict_get ms p = Some (Synthesized pm)"
proof (induction props arbitrary: acc)
  case Nil
  then show ?case by simp
next
  case (Cons a props)
  obtain pn pv where a: "a = (pn, pv)"
    by (cases a)
  show ?case
  proof (cases "(p, JObject pd) \<in> set props")
    case True
    from Cons.prems(1) obtain acc' where "property_models props acc' = Inr ms"
      by (cases pv) (auto simp: a split: sum.splits if_splits)
    from Cons.IH [OF this _ True Cons.prems(4,5)] Cons.prems(2) show ?thesis
      by simp
  next
    case False
    with Cons.prems(3) have eq: "pn = p" "pv = JObject pd"
      by (auto simp: a)
    from Cons.prems(1,4,5) obtain pm where pm: "json_schema_to_pydantic (JObject pd) = Inr pm"
      and rest: "property_models props (dict_set acc p (Synthesized pm)) = Inr ms"
      by (auto simp: a eq split: sum.splits)
    from Cons.prems(2) have "\<forall>pd'. (p, JObject pd') \<notin> set props"
      by (force simp: a eq)
    with property_models_keep [OF rest, of p] have "dict_get ms p = Some (Synthesized pm)"
      by (simp add: dict_get_dict_set)
    with pm show ?thesis
      by blast
  qed
qed

lemma definition_models_other:
  "definition_models defs acc = Inr ms \<Longrightarrow> \<not> dict_in k defs \<Longrightarrow>
     dict_get ms k = dict_get acc k"
  by (induction defs arbitrary: acc)
     (auto split: sum.splits simp: dict_get_dict_set dict_in_def)

lemma compile_models_object:
  assumes "compile_models name (JObject d) = Inr ms"
    and "dict_get d ''properties'' = Some (JObject props)"
  shows "\<exists>root ms1. json_schema_to_pydantic (JObject d) = Inr root
     \<and> property_models props [(name, Synthesized root)] = Inr ms1
     \<and> (case dict_get d ''definitions'' of
           None \<Rightarrow> ms = ms1
         | Some v \<Rightarrow> (\<exists>defs. v = JObject defs \<and> definition_models defs ms1 = Inr ms))"
proof -
  from assms(2) have inp: "dict_in ''properties'' d"
    by (rule dict_get_Some_in)
  obtain root where root: "json_schema_to_pydantic (JObject d) = Inr root"
    using assms inp
    by (cases "json_schema_to_pydantic (JObject d)")
       (simp_all add: compile_models_def root_models_def del: json_schema_to_pydantic.simps)
  obtain ms1 where ms1: "property_models props [(name, Synthesized root)] = Inr ms1"
    using assms inp root
    by (cases "property_models props [(name, Synthesized root)]")
       (simp_all add: compile_models_def root_models_def del: json_schema_to_pydantic.simps)
  have step: "(if dict_in ''definitions'' d
           then case definitions_of (JObject d) of
                  Inl e \<Rightarrow> Inl e
                | Inr (JObject defs) \<Rightarrow> definition_models defs ms1
                | Inr _ \<Rightarrow> Inl AttributeError
           else Inr ms1) = Inr ms"
    using assms inp root ms1
    by (simp add: compile_models_def root_models_def del: json_schema_to_pydantic.simps)
  have "case dict_get d ''definitions'' of
           None \<Rightarrow> ms = ms1
         | Some v \<Rightarrow> (\<exists>defs. v = JObject defs \<and> definition_models defs ms1 = Inr ms)"
  proof (cases "dict_get d ''definitions''")
    case None
    then have "\<not> dict_in ''definitions'' d"
      by (simp add: dict_get_None_iff)
    with step None show ?thesis
      by simp
  next
    case (Some v)
    then have "dict_in ''definitions'' d"
      by (rule dict_get_Some_in)
    with step Some show ?thesis
      by (cases v) (simp_all add: definitions_of_def)
  qed
  with root ms1 show ?thesis
    by blast
qed

lemma root_model_kept:
  assumes "compile_models name (JObject d) = Inr ms"
    and "dict_get d ''properties'' = Some (JObject props)"
    and "\<forall>pd. (name, JObject pd) \<in> set props \<longrightarrow>
           \<not> (dict_get pd ''type'' = Some (JString ''object'') \<and> dict_in ''properties'' pd)"
    and "\<forall>defs. dict_get d ''definitions'' = Some (JObject defs) \<longrightarrow> \<not> dict_in name defs"
  shows "\<exists>root. json_schema_to_pydantic (JObject d) = Inr root
           \<and> dict_get ms name = Some (Synthesized root)"
proof -
  from compile_models_object [OF assms(1,2)] obtain root ms1 where
    root: "json_schema_to_pydantic (JObject d) = Inr root"
    and ms1: "property_models props [(name, Synthesized root)] = Inr ms1"
    and defs: "case dict_get d ''definitions'' of
           None \<Rightarrow> ms = ms1
         | Some v \<Rightarrow> (\<exists>defs. v = JObject defs \<and> definition_models defs ms1 = Inr ms)"
    by blast
  from property_models_keep [OF ms1 assms(3)]
  have one: "dict_get ms1 name = Some (Synthesized root)"
    by (simp add: dict_get_def)
  have "dict_get ms name = dict_get ms1 name"
  proof (cases "dict_get d ''definitions''")
    case None
    with defs show ?thesis by simp
  next
    case (Some v)
    with defs obtain ds where "v = JObject ds" and run: "definition_models ds ms1 = Inr ms"
      by auto
    with Some assms(4) have "\<not> dict_in name ds"
      by simp
    from definition_models_other [OF run this] show ?thesis .
  qed
  with one root show ?thesis
    by simp
qed

lemma person_models:
  "compile_models ''Person'' (JObject person_dict) =
     Inr [(''Person'', Synthesized person_model), (''address'', Synthesized address_model)]"
  by (simp add: example_defs)

lemma person_with_definitions_compiles:
  "json_schema_to_pydantic (JObject person_with_definitions) = Inr person_model"
  by (simp add: example_defs)

lemma person_with_definitions_models:
  "compile_models ''Person'' (JObject person_with_definitions) = Inr trip_models"
  by (simp add: example_defs)

text \<open>
  C7, as the code has it. When a document with a \<open>properties\<close> entry compiles under a
  root name, the root descriptor is the model \<open>_json_schema_to_pydantic\<close> builds from the
  document; its name is the fixed \<open>DynamicModel\<close>, not the root name; and the returned
  mapping holds it under the key of the root name whenever no root property that is an
  object with properties and no definition has that name.
\<close>

theorem root_model_stored:
  assumes "compile_models name (JObject d) = Inr ms"
    and "dict_get d ''properties'' = Some (JObject props)"
  shows "\<exists>root. json_schema_to_pydantic (JObject d) = Inr root
    \<and> type_name root = ''DynamicModel''
    \<and> ((\<forall>pd. (name, JObject pd) \<in> set props \<longrightarrow>
            \<not> (dict_get pd ''type'' = Some (JString ''object'') \<and> dict_in ''properties'' pd))
        \<and> (\<forall>defs. dict_get d ''definitions'' = Some (JObject defs) \<longrightarrow> \<not> dict_in name defs)
        \<longrightarrow> dict_get ms name = Some (Synthesized root))"
proof -
  from compile_models_object [OF assms] obtain root where
    root: "json_schema_to_pydantic (JObject d) = Inr root"
    by blast
  from json_schema_to_pydantic_fields [OF root assms(2)]
  have "type_name root = ''DynamicModel''"
    by simp
  with root root_model_kept [OF assms] show ?thesis
    by auto
qed

theorem root_model_stored_witness:
  "compile_models ''Person'' (JObject person_with_definitions) = Inr trip_models
   \<and> dict_get person_with_definitions ''properties'' = Some (JObject person_properties)
   \<and> \<not> dict_in ''Person'' person_properties
   \<and> dict_get person_with_definitions ''definitions'' = Some (JObject trip_definitions)
   \<and> \<not> dict_in ''Person'' trip_definitions
   \<and> json_schema_to_pydantic (JObject person_with_definitions) = Inr person_model
   \<and> type_name person_model = ''DynamicModel''
   \<and> dict_get trip_models ''Person'' = Some (Synthesized person_model)"
proof -
  have b: "dict_get person_with_definitions ''properties'' = Some (JObject person_properties)"
    and c: "dict_get person_with_definitions ''definitions'' = Some (JObject trip_definitions)"
    by (simp_all add: person_with_definitions_def dict_get_def)
  have d: "\<not> dict_in ''Person'' person_properties"
    and e: "\<not> dict_in ''Person'' trip_definitions"
    by (simp_all add: person_properties_def trip_definitions_def dict_in_def)
  from d have h1: "\<forall>pd. (''Person'', JObject pd) \<in> set person_properties \<longrightarrow>
      \<not> (dict_get pd ''type'' = Some (JString ''object'') \<and> dict_in ''properties'' pd)"
    by (force simp: dict_in_def)
  from c e have h2: "\<forall>defs. dict_get person_with_definitions ''definitions''
      = Some (JObject defs) \<longrightarrow> \<not> dict_in ''Person'' defs"
    by simp
  from root_model_stored [OF person_with_definitions_models b] h1 h2
  have "type_name person_model = ''DynamicModel''
      \<and> dict_get trip_models ''Person'' = Some (Synthesized person_model)"
    by (auto simp: person_with_definitions_compiles simp del: json_schema_to_pydantic.simps)
  with person_with_definitions_models person_with_definitions_compiles b c d e show ?thesis
    by blast
qed

text \<open>
  C7 as stated fails on the scenario document: under the root name \<open>Person\<close> no
  descriptor of the result is named \<open>Person\<close>, and under the root name \<open>address\<close> the
  result holds the model of the \<open>address\<close> property only, the root descriptor being
  replaced under its key.
\<close>

theorem root_name_counterexample:
  "dict_in ''properties'' person_dict
   \<and> compile_models ''Person'' (JObject person_dict) =
       Inr [(''Person'', Synthesized person_model), (''address'', Synthesized address_model)]
   \<and> type_name person_model \<noteq> ''Person'' \<and> type_name address_model \<noteq> ''Person''
   \<and> json_schema_to_pydantic (JObject person_dict) = Inr person_model
   \<and> compile_models ''address'' (JObject person_dict) = Inr [(''address'', Synthesized address_model)]
   \<and> person_model \<noteq> address_model"
  by (simp add: example_defs)

text \<open>
  C3, as the code has it. Let a document compile under a root name, and let a root
  property be an object schema with a \<open>properties\<close> entry whose name is not a key of
  the document's definitions. Then the returned mapping holds under the property's name
  the model compiled from the property's schema, and the root descriptor's field of
  that name has this same model as its type. The root descriptor itself is in the
  mapping under the root name whenever no such property and no definition has the root
  name. The properties are a Python dict: their names are distinct.
\<close>

theorem nested_object_sibling:
  assumes "compile_models name (JObject d) = Inr ms"
    and "dict_get d ''properties'' = Some (JObject props)"
    and "distinct (map fst props)"
    and "(p, JObject pd) \<in> set props"
    and "dict_get pd ''type'' = Some (JString ''object'')"
    and "dict_in ''properties'' pd"
    and "\<forall>defs. dict_get d ''definitions'' = Some (JObject defs) \<longrightarrow> \<not> dict_in p defs"
  shows "\<exists>root fi pm. json_schema_to_pydantic (JObject d) = Inr root
    \<and> dict_get (type_fields root) p = Some fi \<and> ftype fi = PyModel pm
    \<and> dict_get ms p = Some (Synthesized pm)
    \<and> json_schema_to_pydantic (JObject pd) = Inr pm
    \<and> ((\<forall>pd'. (name, JObject pd') \<in> set props \<longrightarrow>
            \<not> (dict_get pd' ''type'' = Some (JString ''object'') \<and> dict_in ''properties'' pd'))
        \<and> (\<forall>defs. dict_get d ''definitions'' = Some (JObject defs) \<longrightarrow> \<not> dict_in name defs)
        \<longrightarrow> dict_get ms name = Some (Synthesized root))"
proof -
  from compile_models_object [OF assms(1,2)] obtain root ms1 where
    root: "json_schema_to_pydantic (JObject d) = Inr root"
    and ms1: "property_models props [(name, Synthesized root)] = Inr ms1"
    and defs: "case dict_get d ''definitions'' of
           None \<Rightarrow> ms = ms1
         | Some v \<Rightarrow> (\<exists>defs. v = JObject defs \<and> definition_models defs ms1 = Inr ms)"
    by blast
  from property_models_sibling [OF ms1 assms(3,4,5,6)] obtain pm where
    pm: "json_schema_to_pydantic (JObject pd) = Inr pm"
    and sib: "dict_get ms1 p = Some (Synthesized pm)"
    by blast
  have same: "dict_get ms p = dict_get ms1 p"
  proof (cases "dict_get d ''definitions''")
    case None
    with defs show ?thesis by simp
  next
    case (Some v)
    with defs obtain ds where "v = JObject ds" and run: "definition_models ds ms1 = Inr ms"
      by auto
    with Some assms(7) have "\<not> dict_in p ds"
      by simp
    from definition_models_other [OF run this] show ?thesis .
  qed
  from json_schema_to_pydantic_fields [OF root assms(2)] obtain r where
    "build_fields r props [] = Inr (type_fields root)"
    by blast
  from build_fields_field [OF this assms(3,4)] obtain fi t where
    t: "json_type_to_python (JObject pd) = Inr t"
    and fi: "dict_get (type_fields root) p = Some fi" "ftype fi = t"
    by blast
  from t pm assms(5,6) have "t = PyModel pm"
    by (simp del: json_schema_to_pydantic.simps)
  moreover have "dict_get ms name = Some (Synthesized root)"
    if "\<forall>pd'. (name, JObject pd') \<in> set props \<longrightarrow>
            \<not> (dict_get pd' ''type'' = Some (JString ''object'') \<and> dict_in ''properties'' pd')"
      and "\<forall>defs. dict_get d ''definitions'' = Some (JObject defs) \<longrightarrow> \<not> dict_in name defs"
    using root_model_kept [OF assms(1,2) that] root by auto
  ultimately show ?thesis
    using root pm sib same fi by auto
qed

theorem nested_object_sibling_witness:
  "compile_models ''Person'' (JObject person_with_definitions) = Inr trip_models
   \<and> dict_get person_with_definitions ''properties'' = Some (JObject person_properties)
   \<and> distinct (map fst person_properties)
   \<and> (''address'', JObject address_schema) \<in> set person_properties
   \<and> dict_get address_schema ''type'' = Some (JString ''object'')
   \<and> dict_in ''properties'' address_schema
   \<and> dict_get person_with_definitions ''definitions'' = Some (JObject trip_definitions)
   \<and> \<not> dict_in ''address'' trip_definitions
   \<and> json_schema_to_pydantic (JObject person_with_definitions) = Inr person_model
   \<and> dict_get (type_fields person_model) ''address''
        = Some (FieldInfo (PyModel address_model) PyNone None)
   \<and> dict_get trip_models ''address'' = Some (Synthesized address_model)
   \<and> json_schema_to_pydantic (JObject address_schema) = Inr address_model"
proof -
  have b: "dict_get person_with_definitions ''properties'' = Some (JObject person_properties)"
    and g: "dict_get person_with_definitions ''definitions'' = Some (JObject trip_definitions)"
    by (simp_all add: person_with_definitions_def dict_get_def)
  have c: "distinct (map fst person_properties)"
    and d: "(''address'', JObject address_schema) \<in> set person_properties"
    by (simp_all add: person_properties_def)
  have e: "dict_get address_schema ''type'' = Some (JString ''object'')"
    and f: "dict_in ''properties'' address_schema"
    by (simp_all add: address_schema_def dict_get_def dict_in_def)
  have i: "\<not> dict_in ''address'' trip_definitions"
    by (simp add: trip_definitions_def dict_in_def)
  with g have h: "\<forall>defs. dict_get person_with_definitions ''definitions''
      = Some (JObject defs) \<longrightarrow> \<not> dict_in ''address'' defs"
    by simp
  from nested_object_sibling [OF person_with_definitions_models b c d e f h]
  obtain fi pm where
    "dict_get (type_fields person_model) ''address'' = Some fi" and "ftype fi = PyModel pm"
    and "dict_get trip_models ''address'' = Some (Synthesized pm)"
    and "json_schema_to_pydantic (JObject address_schema) = Inr pm"
    by (auto simp: person_with_definitions_compiles simp del: json_schema_to_pydantic.simps)
  moreover from this have "pm = address_model"
    and "fi = FieldInfo (PyModel address_model) PyNone None"
    by (simp_all add: example_defs)
  ultimately show ?thesis
    using person_with_definitions_models person_with_definitions_compiles b c d e f g i
    by simp
qed

text \<open>
  C3 as stated fails when a definition has the name of the nested property: the
  definitions are compiled after the properties and stored under the same key, so the
  model under \<open>address\<close> is the one of the definition (a field \<open>zip\<close>), while the
  root's \<open>address\<close> field has the model of the property (a field \<open>city\<close>).
\<close>

theorem nested_object_sibling_counterexample:
  "compile_models ''Person'' shadowed_document =
     Inr [(''Person'',
           Synthesized
             (Model ''DynamicModel'' [(''address'', FieldInfo (PyModel address_model) PyNone None)])),
          (''address'', Synthesized zip_model)]
   \<and> zip_model \<noteq> address_model"
  by (simp add: example_defs)

section \<open>Documents that compile\<close>

text \<open>
  The compiler returns a result on every document that is a well-formed schema and
  whose \<open>definitions\<close>, when present, are a dict of well-formed schemas.
\<close>

lemma build_fields_succeeds:
  "\<forall>p \<in> set props. \<exists>t. json_type_to_python (snd p) = Inr t \<Longrightarrow>
   \<exists>fs. build_fields (JArray names) props acc = Inr fs"
proof (induction props arbitrary: acc)
  case Nil
  then show ?case by simp
next
  case (Cons a props)
  obtain k s where a: "a = (k, s)"
    by (cases a)
  from Cons.prems obtain t where "json_type_to_python s = Inr t"
    by (auto simp: a)
  moreover have "\<exists>fs. build_fields (JArray names) props acc' = Inr fs" for acc'
    using Cons.IH [of acc'] Cons.prems by simp
  ultimately show ?case
    by (simp add: a Let_def)
qed

lemma schema_ok_compiles:
  "schema_ok s \<Longrightarrow>
     (\<exists>t. json_type_to_python s = Inr t) \<and> (\<exists>m. json_schema_to_pydantic s = Inr m)"
proof (induction rule: schema_ok.induct)
  case (1 d)
  have model: "\<exists>m. json_schema_to_pydantic (JObject d) = Inr m"
  proof (cases "dict_get d ''properties''")
    case None
    then show ?thesis
      by (simp add: create_base_model_def)
  next
    case (Some v)
    from 1(1) [OF Some] obtain props where v: "v = JObject props"
      and ok: "\<forall>p \<in> set props. \<exists>t. json_type_to_python (snd p) = Inr t"
      by fastforce
    obtain names where r: "(case dict_get d ''required'' of Some r \<Rightarrow> r | None \<Rightarrow> JArray [])
        = JArray names"
    proof (cases "dict_get d ''required''")
      case None
      with that show ?thesis by simp
    next
      case (Some r)
      with 1(3) [OF Some] that show ?thesis by auto
    qed
    from build_fields_succeeds [OF ok, of names "[]"] obtain fs where
      fs: "build_fields (JArray names) props [] = Inr fs"
      by blast
    from build_fields_distinct [OF fs] have "distinct (map fst fs)"
      by simp
    with Some v r fs show ?thesis
      by (simp add: create_base_model_def)
  qed
  moreover have "\<exists>t. json_type_to_python (JObject d) = Inr t"
  proof -
    have "\<exists>t. (case json_type_to_python v of Inl e \<Rightarrow> Inl e
                | Inr item_type \<Rightarrow> Inr (PyList item_type)) = Inr t"
      if "dict_get d ''items'' = Some v" for v
      using 1(2) [OF that] by auto
    with model show ?thesis
      by (auto simp: Let_def simp del: json_schema_to_pydantic.simps split: option.splits)
  qed
  ultimately show ?case
    by blast
qed

lemma property_models_succeeds:
  "\<forall>p \<in> set props. schema_ok (snd p) \<Longrightarrow>
   \<exists>ms. property_models props acc = Inr ms"
proof (induction props arbitrary: acc)
  case Nil
  then show ?case by simp
next
  case (Cons a props)
  obtain k s where a: "a = (k, s)"
    by (cases a)
  from Cons.prems have ok: "schema_ok s"
    by (simp add: a)
  then obtain pd where s: "s = JObject pd"
    by (auto elim: schema_ok.cases)
  from schema_ok_compiles [OF ok] obtain m where m: "json_schema_to_pydantic (JObject pd) = Inr m"
    by (auto simp: s)
  have "\<exists>ms. property_models props acc' = Inr ms" for acc'
    using Cons.IH [of acc'] Cons.prems by simp
  with m show ?case
    by (simp add: a s del: json_schema_to_pydantic.simps)
qed

lemma definition_models_succeeds:
  "\<forall>p \<in> set defs. schema_ok (snd p) \<Longrightarrow>
   \<exists>ms. definition_models defs acc = Inr ms"
proof (induction defs arbitrary: acc)
  case Nil
  then show ?case by simp
next
  case (Cons a defs)
  obtain k s where a: "a = (k, s)"
    by (cases a)
  from Cons.prems have "schema_ok s"
    by (simp add: a)
  from schema_ok_compiles [OF this] obtain m where "json_schema_to_pydantic s = Inr m"
    by auto
  moreover have "\<exists>ms. definition_models defs acc' = Inr ms" for acc'
    using Cons.IH [of acc'] Cons.prems by simp
  ultimately show ?case
    by (simp add: a)
qed

lemma compile_models_succeeds:
  assumes "schema_ok (JObject d)"
    and "\<And>v. dict_get d ''definitions'' = Some v \<Longrightarrow>
           \<exists>defs. v = JObject defs \<and> (\<forall>k s. (k, s) \<in> set defs \<longrightarrow> schema_ok s)"
  shows "\<exists>ms. compile_models name (JObject d) = Inr ms"
proof -
  have root: "\<exists>ms. (if dict_in ''properties'' d then root_models name (JObject d) else Inr [])
                = Inr ms"
  proof (cases "dict_get d ''properties''")
    case None
    then show ?thesis
      by (simp add: dict_get_None_iff)
  next
    case (Some v)
    with assms(1) obtain props where v: "v = JObject props"
      and ok: "\<forall>p \<in> set props. schema_ok (snd p)"
      by (fastforce elim: schema_ok.cases)
    from schema_ok_compiles [OF assms(1)] obtain m where
      m: "json_schema_to_pydantic (JObject d) = Inr m"
      by auto
    from property_models_succeeds [OF ok, of "[(name, Synthesized m)]"] obtain ms where
      "property_models props [(name, Synthesized m)] = Inr ms"
      by blast
    with Some v m show ?thesis
      by (simp add: root_models_def del: json_schema_to_pydantic.simps)
  qed
  then obtain ms1 where ms1:
    "(if dict_in ''properties'' d then root_models name (JObject d) else Inr []) = Inr ms1"
    by blast
  show ?thesis
  proof (cases "dict_get d ''definitions''")
    case None
    then have "\<not> dict_in ''definitions'' d"
      by (simp add: dict_get_None_iff)
    with ms1 show ?thesis
      by (simp add: compile_models_def)
  next
    case (Some v)
    from assms(2) [OF Some] obtain defs where v: "v = JObject defs"
      and ok: "\<forall>p \<in> set defs. schema_ok (snd p)"
      by fastforce
    from definition_models_succeeds [OF ok, of ms1] obtain ms where
      "definition_models defs ms1 = Inr ms"
      by blast
    with ms1 Some v dict_get_Some_in [OF Some] show ?thesis
      by (simp add: compile_models_def definitions_of_def)
  qed
qed

section \<open>Models of a native module\<close>

lemma scan_module_other:
  "\<not> dict_in k attrs \<Longrightarrow> dict_get (scan_module attrs acc) k = dict_get acc k"
  by (induction attrs acc rule: scan_module.induct)
     (auto simp: dict_in_def dict_get_dict_set split: pyobj.splits)

lemma scan_module_get:
  "distinct (map fst attrs) \<Longrightarrow>
   dict_get (scan_module attrs acc) k =
     (case dict_get attrs k of
        Some (PyType c) \<Rightarrow>
          if issubclass c BaseModel \<and> c \<noteq> BaseModel then Some (Native c) else dict_get acc k
      | _ \<Rightarrow> dict_get acc k)"
proof (induction attrs acc rule: scan_module.induct)
  case (1 models)
  then show ?case by (simp add: dict_get_Nil)
next
  case (2 attr_name attr rest models)
  show ?case
  proof (cases "k = attr_name")
    case True
    from 2(4) have "\<not> dict_in k rest"
      by (auto simp: True dict_in_def)
    then show ?thesis
      using True
      by (cases attr) (simp_all add: scan_module_other dict_get_dict_set dict_get_Cons)
  next
    case False
    with 2 show ?thesis
      by (cases attr) (auto simp: dict_get_Cons dict_get_dict_set split: option.splits pyobj.splits)
  qed
qed

text \<open>
  C8. When the module's loader runs without an error, \<open>_load_python_schema\<close> returns
  and stores a mapping that holds, under the name of the attribute, exactly the
  attributes of the module that are classes, subclasses of \<open>BaseModel\<close> and not
  \<open>BaseModel\<close> itself; \<open>BaseModel\<close> is under no key, also when the module imports it.
  The attribute names are those of \<open>dir(module)\<close>, which lists every name once.
\<close>

theorem python_schema_models:
  assumes "spec_from_file_location w name file_path = Some spec"
    and "loader spec = Some (Inr attrs)"
    and "distinct (map fst attrs)"
  shows "\<exists>ms. load_python_schema w reg name file_path =
                (Inr ms, reg\<lparr>schemas := (schemas reg)(name \<mapsto> ms)\<rparr>)
    \<and> (\<forall>attr_name m. dict_get ms attr_name = Some m \<longleftrightarrow>
          (\<exists>c. m = Native c \<and> (attr_name, PyType c) \<in> set attrs
              \<and> issubclass c BaseModel \<and> c \<noteq> BaseModel))
    \<and> (\<forall>attr_name. dict_get ms attr_name \<noteq> Some (Native BaseModel))"
proof -
  let ?ms = "scan_module attrs []"
  have load: "load_python_schema w reg name file_path =
                (Inr ?ms, reg\<lparr>schemas := (schemas reg)(name \<mapsto> ?ms)\<rparr>)"
    using assms(1,2) by (simp add: load_python_schema_def Let_def)
  have get: "dict_get ?ms attr_name = Some m \<longleftrightarrow>
          (\<exists>c. m = Native c \<and> (attr_name, PyType c) \<in> set attrs
              \<and> issubclass c BaseModel \<and> c \<noteq> BaseModel)" for attr_name m
  proof -
    have sc: "dict_get ?ms attr_name =
        (case dict_get attrs attr_name of
           Some (PyType c) \<Rightarrow>
             if issubclass c BaseModel \<and> c \<noteq> BaseModel then Some (Native c) else None
         | _ \<Rightarrow> None)"
      by (simp add: scan_module_get [OF assms(3)] dict_get_Nil
            split: option.splits pyobj.splits)
    have mem: "(attr_name, v) \<in> set attrs \<longleftrightarrow> dict_get attrs attr_name = Some v" for v
      using dict_get_Some_iff [OF assms(3)] by simp
    show ?thesis
      unfolding sc mem by (auto split: option.splits pyobj.splits)
  qed
  then have "dict_get ?ms attr_name \<noteq> Some (Native BaseModel)" for attr_name
    by blast
  with load get show ?thesis
    by blast
qed

theorem python_schema_models_witness:
  "spec_from_file_location (module_files itinerary_attrs) ''itinerary'' ''itinerary_schema.py''
     = Some (ModuleSpec (Some (Inr itinerary_attrs)))
   \<and> loader (ModuleSpec (Some (Inr itinerary_attrs))) = Some (Inr itinerary_attrs)
   \<and> distinct (map fst itinerary_attrs)
   \<and> load_python_schema (module_files itinerary_attrs) init ''itinerary'' ''itinerary_schema.py'' =
       (Inr [(''Activity'', Native (PyClass ''itinerary_schema.Activity'' [BaseModel])),
             (''DayPlan'', Native (PyClass ''itinerary_schema.DayPlan'' [BaseModel])),
             (''Itinerary'', Native (PyClass ''itinerary_schema.Itinerary'' [BaseModel]))],
        \<lparr>schemas = [''itinerary'' \<mapsto>
            [(''Activity'', Native (PyClass ''itinerary_schema.Activity'' [BaseModel])),
             (''DayPlan'', Native (PyClass ''itinerary_schema.DayPlan'' [BaseModel])),
             (''Itinerary'', Native (PyClass ''itinerary_schema.Itinerary'' [BaseModel]))]]\<rparr>)"
proof -
  have a: "spec_from_file_location (module_files itinerary_attrs) ''itinerary'' ''itinerary_schema.py''
     = Some (ModuleSpec (Some (Inr itinerary_attrs)))"
    by (simp add: module_files_def)
  have b: "loader (ModuleSpec (Some (Inr itinerary_attrs))) = Some (Inr itinerary_attrs)"
    by simp
  have c: "distinct (map fst itinerary_attrs)"
    by (simp add: itinerary_attrs_def)
  have d: "scan_module itinerary_attrs [] =
      [(''Activity'', Native (PyClass ''itinerary_schema.Activity'' [BaseModel])),
       (''DayPlan'', Native (PyClass ''itinerary_schema.DayPlan'' [BaseModel])),
       (''Itinerary'', Native (PyClass ''itinerary_schema.Itinerary'' [BaseModel]))]"
    by (simp add: itinerary_attrs_def BaseModel_def)
  from python_schema_models [OF a b c, of init] obtain ms where
    "load_python_schema (module_files itinerary_attrs) init ''itinerary'' ''itinerary_schema.py'' =
       (Inr ms, init\<lparr>schemas := (schemas init)(''itinerary'' \<mapsto> ms)\<rparr>)"
    by blast
  moreover from this have "ms = scan_module itinerary_attrs []"
    by (simp add: load_python_schema_def module_files_def Let_def)
  ultimately show ?thesis
    using a b c d by (simp add: init_def)
qed

section \<open>The type factory\<close>

text \<open>
  C9, on the factory as the spec describes it: a call whose field specifications hold a
  name twice fails with \<open>DuplicateFieldError\<close>. (By \<open>compiler_fields_distinct\<close> the
  compiler never makes such a call.)
\<close>

theorem duplicate_fields_rejected:
  "\<not> distinct (map fst fs) \<Longrightarrow> create_base_model name fs = Inl DuplicateFieldError"
  by (simp add: create_base_model_def)

theorem duplicate_fields_rejected_witness:
  "\<not> distinct (map fst [(''city'', FieldInfo PyStr PyNone None), (''city'', FieldInfo PyInt Ellipsis None)])
   \<and> create_base_model ''Address''
       [(''city'', FieldInfo PyStr PyNone None), (''city'', FieldInfo PyInt Ellipsis None)]
       = Inl DuplicateFieldError"
  using duplicate_fields_rejected
    [of "[(''city'', FieldInfo PyStr PyNone None), (''city'', FieldInfo PyInt Ellipsis None)]"
        "''Address''"]
  by simp

section \<open>The registry after a call\<close>

lemma load_schema_registry:
  "load_schema w reg name file_path base_path = (r, reg') \<Longrightarrow>
     reg' = (case r of Inl e \<Rightarrow> reg | Inr ms \<Rightarrow> reg\<lparr>schemas := (schemas reg)(name \<mapsto> ms)\<rparr>)"
  by (auto simp: load_schema_def load_json_schema_def load_python_schema_def Let_def
           split: if_splits sum.splits option.splits)

lemma load_schema_result_indep:
  "fst (load_schema w reg name file_path base_path) =
   fst (load_schema w reg0 name file_path base_path)"
  by (auto simp: load_schema_def load_json_schema_def load_python_schema_def Let_def
           split: if_splits sum.splits option.splits)

lemma not_found_messages_differ:
  "''Model '' @ quoted model_name @ '' not found in schema '' @ quoted schema_name
     \<noteq> ''Schema '' @ quoted s @ '' not found''"
  by simp

text \<open>
  C4. \<open>get_model\<close> on a schema name that is not in the registry raises the
  \<open>ValueError\<close> "Schema '...' not found" (the spec's SchemaNotFoundError); on a schema
  name that is in the registry and a model name that is not in its mapping it raises the
  \<open>ValueError\<close> "Model '...' not found in schema '...'" (the spec's ModelNotFoundError);
  and the registry after the call is the registry before it, whatever the outcome.
\<close>

theorem get_model_miss:
  "(schemas reg schema_name = None \<longrightarrow>
      get_model reg schema_name model_name =
        (Inl (ValueError (''Schema '' @ quoted schema_name @ '' not found'')), reg))
   \<and> (\<forall>schema_models. schemas reg schema_name = Some schema_models
          \<and> \<not> dict_in model_name schema_models \<longrightarrow>
      get_model reg schema_name model_name =
        (Inl (ValueError (''Model '' @ quoted model_name @ '' not found in schema ''
                            @ quoted schema_name)), reg))
   \<and> snd (get_model reg schema_name model_name) = reg"
  by (auto simp: get_model_def dict_get_None_iff [symmetric] split: option.splits)

theorem get_model_miss_witness:
  "schemas init ''travel'' = None
   \<and> get_model init ''travel'' ''Itinerary'' =
        (Inl (ValueError (''Schema '' @ quoted ''travel'' @ '' not found'')), init)
   \<and> schemas \<lparr>schemas = [''travel'' \<mapsto> []]\<rparr> ''travel'' = Some []
   \<and> \<not> dict_in ''Itinerary'' ([] :: models)
   \<and> get_model \<lparr>schemas = [''travel'' \<mapsto> []]\<rparr> ''travel'' ''Itinerary'' =
        (Inl (ValueError (''Model '' @ quoted ''Itinerary'' @ '' not found in schema ''
                            @ quoted ''travel'')), \<lparr>schemas = [''travel'' \<mapsto> []]\<rparr>)"
  using get_model_miss [of init "''travel''" "''Itinerary''"]
        get_model_miss [of "\<lparr>schemas = [''travel'' \<mapsto> []]\<rparr>" "''travel''" "''Itinerary''"]
  by (simp add: init_def dict_in_def)

text \<open>
  C5. After two successful \<open>load_schema\<close> calls under one schema name, the registry
  holds under that name exactly the mapping the second call returned; that mapping is
  the one the second call returns on any registry, so nothing of the first mapping
  enters it; and \<open>get_model\<close> for a model name of the first mapping that is not in the
  second raises the \<open>ValueError\<close> "Model '...' not found in schema '...'".
\<close>

theorem reload_replaces:
  assumes "load_schema w1 reg0 name path1 base1 = (Inr ms1, reg1)"
    and "load_schema w2 reg1 name path2 base2 = (Inr ms2, reg2)"
  shows "schemas reg1 name = Some ms1
    \<and> schemas reg2 name = Some ms2
    \<and> fst (load_schema w2 init name path2 base2) = Inr ms2
    \<and> (\<forall>model_name. dict_in model_name ms1 \<and> \<not> dict_in model_name ms2 \<longrightarrow>
          get_model reg2 name model_name =
            (Inl (ValueError (''Model '' @ quoted model_name @ '' not found in schema ''
                                @ quoted name)), reg2))"
proof -
  from load_schema_registry [OF assms(1)]
  have old: "schemas reg1 name = Some ms1"
    by simp
  from load_schema_registry [OF assms(2)]
  have stored: "schemas reg2 name = Some ms2"
    by simp
  have "fst (load_schema w2 init name path2 base2) = fst (load_schema w2 reg1 name path2 base2)"
    by (rule load_schema_result_indep)
  then have indep: "fst (load_schema w2 init name path2 base2) = Inr ms2"
    using assms(2) by simp
  from stored have "\<forall>model_name. \<not> dict_in model_name ms2 \<longrightarrow>
      get_model reg2 name model_name =
        (Inl (ValueError (''Model '' @ quoted model_name @ '' not found in schema ''
                            @ quoted name)), reg2)"
    by (simp add: get_model_def dict_get_None_iff [symmetric])
  with old stored indep show ?thesis
    by blast
qed

theorem reload_replaces_witness:
  "load_schema (files_with old_document) init ''trip'' ''trip.json'' (Some ''schemas'') =
     (Inr [(''Old'', Synthesized (Model ''DynamicModel'' []))],
      \<lparr>schemas = [''trip'' \<mapsto> [(''Old'', Synthesized (Model ''DynamicModel'' []))]]\<rparr>)
   \<and> load_schema (files_with new_document)
        \<lparr>schemas = [''trip'' \<mapsto> [(''Old'', Synthesized (Model ''DynamicModel'' []))]]\<rparr>
        ''trip'' ''trip.json'' (Some ''schemas'') =
     (Inr [(''New'', Synthesized (Model ''DynamicModel'' []))],
      \<lparr>schemas = [''trip'' \<mapsto> [(''New'', Synthesized (Model ''DynamicModel'' []))]]\<rparr>)
   \<and> dict_in ''Old'' [(''Old'', Synthesized (Model ''DynamicModel'' []))]
   \<and> \<not> dict_in ''Old'' [(''New'', Synthesized (Model ''DynamicModel'' []))]
   \<and> get_model \<lparr>schemas = [''trip'' \<mapsto> [(''New'', Synthesized (Model ''DynamicModel'' []))]]\<rparr>
        ''trip'' ''Old'' =
     (Inl (ValueError (''Model '' @ quoted ''Old'' @ '' not found in schema '' @ quoted ''trip'')),
      \<lparr>schemas = [''trip'' \<mapsto> [(''New'', Synthesized (Model ''DynamicModel'' []))]]\<rparr>)"
proof -
  have first:
    "load_schema (files_with old_document) init ''trip'' ''trip.json'' (Some ''schemas'') =
       (Inr [(''Old'', Synthesized (Model ''DynamicModel'' []))],
        \<lparr>schemas = [''trip'' \<mapsto> [(''Old'', Synthesized (Model ''DynamicModel'' []))]]\<rparr>)"
    by (simp add: example_defs old_document_def init_def)
  have second:
    "load_schema (files_with new_document)
        \<lparr>schemas = [''trip'' \<mapsto> [(''Old'', Synthesized (Model ''DynamicModel'' []))]]\<rparr>
        ''trip'' ''trip.json'' (Some ''schemas'') =
       (Inr [(''New'', Synthesized (Model ''DynamicModel'' []))],
        \<lparr>schemas = [''trip'' \<mapsto> [(''New'', Synthesized (Model ''DynamicModel'' []))]]\<rparr>)"
    by (simp add: example_defs new_document_def)
  from reload_replaces [OF first second] first second show ?thesis
    by (simp add: dict_in_def)
qed

text \<open>
  C6. When the resolved path does not exist, \<open>load_schema\<close> raises
  \<open>FileNotFoundError\<close> (the spec's SchemaNotFoundError for a file); when it exists
  and its lower-cased extension is neither \<open>.json\<close> nor \<open>.py\<close>, the call raises the
  \<open>ValueError\<close> "Unsupported schema file type: ..." (the spec's
  UnsupportedFormatError). In both cases the registry after the call is the registry
  before it.
\<close>

theorem load_schema_rejects:
  "(\<not> path_exists w (resolved_path file_path base_path) \<longrightarrow>
      load_schema w reg name file_path base_path =
        (Inl (FileNotFoundError
               (''Schema file not found: '' @ resolved_path file_path base_path)), reg))
   \<and> (path_exists w (resolved_path file_path base_path)
        \<and> str_lower (splitext_ext (resolved_path file_path base_path)) \<noteq> ''.json''
        \<and> str_lower (splitext_ext (resolved_path file_path base_path)) \<noteq> ''.py'' \<longrightarrow>
      load_schema w reg name file_path base_path =
        (Inl (ValueError
               (''Unsupported schema file type: ''
                  @ str_lower (splitext_ext (resolved_path file_path base_path)))), reg))"
  by (simp add: load_schema_def Let_def)

theorem load_schema_rejects_witness:
  "\<not> path_exists (files_with old_document) (resolved_path ''trip.json'' None)
   \<and> load_schema (files_with old_document) init ''trip'' ''trip.json'' None =
       (Inl (FileNotFoundError ''Schema file not found: trip.json''), init)
   \<and> path_exists (files_with old_document) (resolved_path ''trip.yaml'' (Some ''schemas''))
   \<and> str_lower (splitext_ext (resolved_path ''trip.yaml'' (Some ''schemas''))) = ''.yaml''
   \<and> load_schema (files_with old_document) init ''trip'' ''trip.yaml'' (Some ''schemas'') =
       (Inl (ValueError ''Unsupported schema file type: .yaml''), init)"
  using load_schema_rejects [of "files_with old_document" "''trip.json''" None init "''trip''"]
    load_schema_rejects [of "files_with old_document" "''trip.yaml''" "Some ''schemas''" init "''trip''"]
  by (simp add: resolved_path_def path_join_def str_lower_def splitext_ext_def char_lower_def
        files_with_def)

text \<open>
  C10. A \<open>.json\<close> file whose document is a dict with neither a \<open>properties\<close> nor a
  \<open>definitions\<close> key loads without an error: the call returns the empty mapping and
  stores it under the schema name, after which \<open>get_model\<close> under that name raises,
  for every model name, the \<open>ValueError\<close> "Model '...' not found in schema '...'" and
  not the one for a missing schema.
\<close>

theorem load_empty_document:
  assumes "path_exists w (resolved_path file_path base_path)"
    and "str_lower (splitext_ext (resolved_path file_path base_path)) = ''.json''"
    and "json_load w (resolved_path file_path base_path) = Inr (JObject d)"
    and "\<not> dict_in ''properties'' d" and "\<not> dict_in ''definitions'' d"
  shows "load_schema w reg name file_path base_path =
           (Inr [], reg\<lparr>schemas := (schemas reg)(name \<mapsto> [])\<rparr>)
    \<and> (\<forall>model_name.
          get_model (reg\<lparr>schemas := (schemas reg)(name \<mapsto> [])\<rparr>) name model_name =
            (Inl (ValueError (''Model '' @ quoted model_name @ '' not found in schema ''
                                @ quoted name)), reg\<lparr>schemas := (schemas reg)(name \<mapsto> [])\<rparr>)
          \<and> fst (get_model (reg\<lparr>schemas := (schemas reg)(name \<mapsto> [])\<rparr>) name model_name)
              \<noteq> Inl (ValueError (''Schema '' @ quoted name @ '' not found'')))"
  using assms
  by (simp add: load_schema_def load_json_schema_def compile_models_def get_model_def
        dict_get_def)

theorem load_empty_document_witness:
  "path_exists (files_with (JObject [])) (resolved_path ''trip.json'' (Some ''schemas''))
   \<and> str_lower (splitext_ext (resolved_path ''trip.json'' (Some ''schemas''))) = ''.json''
   \<and> json_load (files_with (JObject [])) (resolved_path ''trip.json'' (Some ''schemas''))
       = Inr (JObject [])
   \<and> \<not> dict_in ''properties'' ([] :: (string \<times> json) list)
   \<and> \<not> dict_in ''definitions'' ([] :: (string \<times> json) list)
   \<and> load_schema (files_with (JObject [])) init ''trip'' ''trip.json'' (Some ''schemas'') =
        (Inr [], \<lparr>schemas = [''trip'' \<mapsto> []]\<rparr>)
   \<and> get_model \<lparr>schemas = [''trip'' \<mapsto> []]\<rparr> ''trip'' ''Itinerary'' =
        (Inl (ValueError (''Model '' @ quoted ''Itinerary'' @ '' not found in schema ''
                            @ quoted ''trip'')), \<lparr>schemas = [''trip'' \<mapsto> []]\<rparr>)"
proof -
  have a: "path_exists (files_with (JObject [])) (resolved_path ''trip.json'' (Some ''schemas''))"
    by (simp add: files_with_def resolved_path_def path_join_def)
  have b: "str_lower (splitext_ext (resolved_path ''trip.json'' (Some ''schemas''))) = ''.json''"
    by (simp add: resolved_path_def path_join_def str_lower_def splitext_ext_def char_lower_def)
  have c: "json_load (files_with (JObject [])) (resolved_path ''trip.json'' (Some ''schemas''))
             = Inr (JObject [])"
    by (simp add: files_with_def)
  have d: "\<not> dict_in ''properties'' ([] :: (string \<times> json) list)"
    and e: "\<not> dict_in ''definitions'' ([] :: (string \<times> json) list)"
    by (simp_all add: dict_in_def)
  from load_empty_document [OF a b c d e, of init "''trip''"] a b c d e show ?thesis
    by (simp add: init_def)
qed

end
